theory Spec2Isabelle
  imports Main "HOL-Library.Multiset"
begin

section \<open>Values exchanged with the outside world\<close>

text \<open>
  \<^verbatim>\<open>core/schemas.py\<close>: the platform enumeration and its string values, which are
  what the handlers store and compare (\<^verbatim>\<open>payload.platform.value\<close>).
\<close>

datatype Platform = google_meet | zoom

fun platform_value :: "Platform \<Rightarrow> string" where
  "platform_value google_meet = ''google_meet''"
| "platform_value zoom = ''zoom''"

text \<open>
  The free-form attribute bag (\<^verbatim>\<open>Meeting.data\<close>, a JSON column) is a Python dict
  from strings to JSON scalars. It is an association list with Python's dict
  behaviour: assignment replaces the value of a present key in place and appends a
  new key; \<^verbatim>\<open>d.get(k, default)\<close> reads with a default.
\<close>

datatype jval = JNone | JBool bool | JInt int | JStr string

type_synonym pydict = "(string \<times> jval) list"

fun truthy :: "jval \<Rightarrow> bool" where
  "truthy JNone = False"
| "truthy (JBool b) = b"
| "truthy (JInt i) = (i \<noteq> 0)"
| "truthy (JStr s) = (s \<noteq> [])"

fun dict_set :: "string \<Rightarrow> jval \<Rightarrow> pydict \<Rightarrow> pydict" where
  "dict_set k v [] = [(k, v)]"
| "dict_set k v (p # ps) = (if fst p = k then (k, v) # ps else p # dict_set k v ps)"

definition dict_get :: "pydict \<Rightarrow> string \<Rightarrow> jval \<Rightarrow> jval" where
  "dict_get d k dflt = (case map_of d k of None \<Rightarrow> dflt | Some v \<Rightarrow> v)"

text \<open>
  Exceptions that reach the handlers: the error of the upstream client, the two
  ways a commit can raise (a constraint violation, or the storage engine failing),
  and the error of calling a method on \<^verbatim>\<open>None\<close>.
  \<^verbatim>\<open>str(e)\<close> is the message carried.
\<close>

datatype py_exception =
    VexaClientError string
  | IntegrityError string
  | DBAPIError string
  | AttributeError string

fun str :: "py_exception \<Rightarrow> string" where
  "str (VexaClientError s) = s"
| "str (IntegrityError s) = s"
| "str (DBAPIError s) = s"
| "str (AttributeError s) = s"

text \<open>
  What a handler gives back when it does not return: an \<^verbatim>\<open>HTTPException\<close> with its
  status code and detail, or an exception that no handler clause catches and that
  leaves the endpoint as it is.
\<close>

datatype http_error = HTTPException nat string | Unhandled py_exception

definition HTTP_404_NOT_FOUND :: nat where "HTTP_404_NOT_FOUND = 404"
definition HTTP_500_INTERNAL_SERVER_ERROR :: nat where "HTTP_500_INTERNAL_SERVER_ERROR = 500"
definition HTTP_502_BAD_GATEWAY :: nat where "HTTP_502_BAD_GATEWAY = 502"

section \<open>Rows and the database\<close>

text \<open>
  The tables are declared in \<^verbatim>\<open>core/models.py\<close>; the columns below are the ones the
  handlers read and write. Surrogate keys of linkage and transcription rows are
  never read by the handlers and are left out. Offsets of a segment are kept
  abstract in a linearly ordered type \<open>'t\<close>: only their order is used
  (\<^verbatim>\<open>order_by(TranscriptionModel.start_time)\<close>).
\<close>

record User =
  u_id :: int
  u_email :: string

record APIToken =
  t_id :: int
  t_token :: string
  t_user_id :: int

record Meeting =
  m_id :: int
  m_platform :: string
  m_platform_specific_id :: string
  m_status :: string
  m_data :: "pydict option"

record UserMeeting =
  um_user_id :: int
  um_meeting_id :: int

record 't TranscriptionModel =
  tr_meeting_id :: int
  tr_start_time :: 't
  tr_end_time :: 't
  tr_text :: string
  tr_speaker :: "string option"
  tr_language :: "string option"

text \<open>\<^verbatim>\<open>core/schemas.py\<close>: a segment as exchanged with the upstream service and as
  returned to the caller, and the transcript response.\<close>

record 't TranscriptionSegment =
  start_time :: 't
  end_time :: 't
  text' :: string
  speaker :: "string option"
  language :: "string option"

record 't TranscriptionResponse =
  segments :: "'t TranscriptionSegment list"

record WebhookPayload =
  wp_platform :: Platform
  wp_native_meeting_id :: string

record MeetingCreate =
  mc_platform :: Platform
  mc_native_meeting_id :: string

record 't database =
  users :: "User list"
  api_tokens :: "APIToken list"
  meetings :: "Meeting list"
  user_meetings :: "UserMeeting list"
  transcriptions :: "'t TranscriptionModel list"
  meetings_id_seq :: int
  api_tokens_id_seq :: int

text \<open>
  Primary keys are issued by the sequence, in increasing order. In a database that
  the handlers have built, every stored meeting id has been issued, and so has every
  meeting id that a linkage row refers to.
\<close>

definition ids_issued :: "'t database \<Rightarrow> bool" where
  "ids_issued db \<longleftrightarrow>
     (\<forall>m \<in> set (meetings db). m_id m \<le> meetings_id_seq db) \<and>
     (\<forall>l \<in> set (user_meetings db). um_meeting_id l \<le> meetings_id_seq db)"

section \<open>The session: pending changes and commit\<close>

text \<open>
  \<^verbatim>\<open>db.add(...)\<close> and an attribute change flagged with \<^verbatim>\<open>flag_modified\<close> are pending
  until \<^verbatim>\<open>db.commit()\<close>, which writes all of them in one transaction or none.
\<close>

datatype 't pending =
    AddMeeting string string string "pydict option"
  | AddUserMeeting int int
  | AddTranscription "'t TranscriptionModel"
  | AddAPIToken string int
  | ModifyMeetingData int pydict

text \<open>
  Modelled from the spec: the constraints of the tables, declared in
  \<^verbatim>\<open>core/models.py\<close>, which is not among the sources. The storage collaborator
  enforces uniqueness of (Meeting.platform, Meeting.externalId), of
  (UserMeeting.user, UserMeeting.meeting) and of APIToken.token, and a token's owning
  user is a non-null foreign relationship. A violated constraint makes the write
  raise \<^verbatim>\<open>IntegrityError\<close>. Primary keys come from a sequence.
\<close>

fun flush_one :: "'t pending \<Rightarrow> 't database \<Rightarrow> py_exception + 't database" where
  "flush_one (AddMeeting p n st d) db =
     (if \<exists>m \<in> set (meetings db). m_platform m = p \<and> m_platform_specific_id m = n
      then Inl (IntegrityError ''duplicate key: meetings (platform, platform_specific_id)'')
      else Inr (db\<lparr>meetings := meetings db @
                     [\<lparr>m_id = meetings_id_seq db + 1, m_platform = p,
                       m_platform_specific_id = n, m_status = st, m_data = d\<rparr>],
                   meetings_id_seq := meetings_id_seq db + 1\<rparr>))"
| "flush_one (AddUserMeeting u m) db =
     (if \<exists>l \<in> set (user_meetings db). um_user_id l = u \<and> um_meeting_id l = m
      then Inl (IntegrityError ''duplicate key: user_meetings (user_id, meeting_id)'')
      else Inr (db\<lparr>user_meetings := user_meetings db @
                     [\<lparr>um_user_id = u, um_meeting_id = m\<rparr>]\<rparr>))"
| "flush_one (AddTranscription r) db =
     Inr (db\<lparr>transcriptions := transcriptions db @ [r]\<rparr>)"
| "flush_one (AddAPIToken tok u) db =
     (if \<exists>t \<in> set (api_tokens db). t_token t = tok
      then Inl (IntegrityError ''duplicate key: api_tokens (token)'')
      else if \<not> (\<exists>usr \<in> set (users db). u_id usr = u)
      then Inl (IntegrityError ''foreign key violation: api_tokens.user_id'')
      else Inr (db\<lparr>api_tokens := api_tokens db @
                     [\<lparr>t_id = api_tokens_id_seq db + 1, t_token = tok, t_user_id = u\<rparr>],
                   api_tokens_id_seq := api_tokens_id_seq db + 1\<rparr>))"
| "flush_one (ModifyMeetingData i d) db =
     Inr (db\<lparr>meetings :=
               map (\<lambda>m. if m_id m = i then m\<lparr>m_data := Some d\<rparr> else m) (meetings db)\<rparr>)"

fun flush :: "'t pending list \<Rightarrow> 't database \<Rightarrow> py_exception + 't database" where
  "flush [] db = Inr db"
| "flush (p # ps) db =
     (case flush_one p db of Inl e \<Rightarrow> Inl e | Inr db' \<Rightarrow> flush ps db')"

section \<open>The environment of one request\<close>

text \<open>
  Everything a handler does not decide itself: the answers of the upstream client
  (\<^verbatim>\<open>Inl msg\<close> is \<^verbatim>\<open>VexaClientError(msg)\<close>), whether the storage engine fails the
  \<open>k\<close>-th commit of the request, and the draws of \<^verbatim>\<open>secrets\<close>.
\<close>

record 't env =
  infra_request_bot :: "string \<Rightarrow> string \<Rightarrow> string + pydict"
  infra_get_transcript :: "string \<Rightarrow> string \<Rightarrow> string + 't TranscriptionSegment list option"
  infra_delete_meeting :: "string \<Rightarrow> string \<Rightarrow> string + unit"
  commit_fault :: "nat \<Rightarrow> string option"
  secrets_randbits :: "nat \<Rightarrow> nat"

datatype infra_call =
    Call_request_bot string string
  | Call_get_transcript string string
  | Call_delete_meeting string string

text \<open>
  \<^verbatim>\<open>await db.commit()\<close>, the \<open>k\<close>-th of the request: it raises when the engine fails
  or a constraint is violated, and then nothing pending is written (the caller keeps
  the database it had).
\<close>

definition db_commit ::
  "'t env \<Rightarrow> nat \<Rightarrow> 't pending list \<Rightarrow> 't database \<Rightarrow> py_exception + 't database" where
  "db_commit env k ps db =
     (case commit_fault env k of
        Some msg \<Rightarrow> Inl (DBAPIError msg)
      | None \<Rightarrow> flush ps db)"

section \<open>Queries\<close>

definition first :: "'a list \<Rightarrow> 'a option" where
  "first xs = (case xs of [] \<Rightarrow> None | x # _ \<Rightarrow> Some x)"

text \<open>\<^verbatim>\<open>select(Meeting).filter(platform == p, platform_specific_id == n)\<close>, then
  \<^verbatim>\<open>.scalars().first()\<close>.\<close>

definition select_meeting :: "'t database \<Rightarrow> string \<Rightarrow> string \<Rightarrow> Meeting option" where
  "select_meeting db p n =
     first (filter (\<lambda>m. m_platform m = p \<and> m_platform_specific_id m = n) (meetings db))"

text \<open>\<^verbatim>\<open>select(UserMeeting).filter(user_id == u, meeting_id == m)\<close>, first row.\<close>

definition select_link :: "'t database \<Rightarrow> int \<Rightarrow> int \<Rightarrow> UserMeeting option" where
  "select_link db u m =
     first (filter (\<lambda>l. um_user_id l = u \<and> um_meeting_id l = m) (user_meetings db))"

text \<open>\<^verbatim>\<open>select(Meeting).join(UserMeeting).filter(platform == p,
  platform_specific_id == n, UserMeeting.user_id == u)\<close>, first row.\<close>

definition select_meeting_of_user ::
  "'t database \<Rightarrow> string \<Rightarrow> string \<Rightarrow> int \<Rightarrow> Meeting option" where
  "select_meeting_of_user db p n u =
     first (concat (map (\<lambda>m. map (\<lambda>l. m)
                (filter (\<lambda>l. um_meeting_id l = m_id m \<and> m_platform m = p \<and>
                              m_platform_specific_id m = n \<and> um_user_id l = u)
                        (user_meetings db)))
              (meetings db)))"

text \<open>\<^verbatim>\<open>select(TranscriptionModel).filter(meeting_id == i).order_by(start_time)\<close>.
  Rows with equal offsets come in the order of the table.\<close>

definition select_transcriptions ::
  "('t::linorder) database \<Rightarrow> int \<Rightarrow> 't TranscriptionModel list" where
  "select_transcriptions db i =
     sort_key tr_start_time (filter (\<lambda>r. tr_meeting_id r = i) (transcriptions db))"

section \<open>\<^verbatim>\<open>routers/webhooks.py\<close>\<close>

definition segment_row :: "int \<Rightarrow> 't TranscriptionSegment \<Rightarrow> 't TranscriptionModel" where
  "segment_row i seg =
     \<lparr>tr_meeting_id = i, tr_start_time = start_time seg, tr_end_time = end_time seg,
      tr_text = text' seg, tr_speaker = speaker seg, tr_language = language seg\<rparr>"

text \<open>\<^verbatim>\<open>final_transcript.get("segments", [])\<close>.\<close>

definition get_segments :: "'a list option \<Rightarrow> 'a list" where
  "get_segments ft = (case ft of None \<Rightarrow> [] | Some segs \<Rightarrow> segs)"

text \<open>The attribute bag the handler leaves on the meeting object before the commit.\<close>

definition archived_data :: "pydict option \<Rightarrow> pydict" where
  "archived_data d =
     dict_set ''transcript_cached'' (JBool True)
       (dict_set ''is_live'' (JBool False) (case d of None \<Rightarrow> [] | Some x \<Rightarrow> x))"

definition handle_webhook ::
  "'t env \<Rightarrow> WebhookPayload \<Rightarrow> 't database \<Rightarrow>
     (http_error + string) \<times> 't database \<times> infra_call list" where
  "handle_webhook env payload db =
     (let p = platform_value (wp_platform payload); n = wp_native_meeting_id payload in
      case select_meeting db p n of
        None \<Rightarrow> (Inl (HTTPException HTTP_404_NOT_FOUND ''Meeting not found''), db, [])
      | Some meeting \<Rightarrow>
          (case infra_get_transcript env p n of
             Inl msg \<Rightarrow>
               (Inl (HTTPException HTTP_502_BAD_GATEWAY (''Infra API Error: '' @ msg)),
                db, [Call_get_transcript p n])
           | Inr final_transcript \<Rightarrow>
               (case db_commit env 0
                       (map (\<lambda>segment. AddTranscription (segment_row (m_id meeting) segment))
                            (get_segments final_transcript)
                        @ [ModifyMeetingData (m_id meeting) (archived_data (m_data meeting))])
                       db of
                  Inl e \<Rightarrow>
                    (Inl (HTTPException HTTP_500_INTERNAL_SERVER_ERROR
                            (''Error processing webhook: '' @ str e)),
                     db, [Call_get_transcript p n])
                | Inr db1 \<Rightarrow>
                    (case infra_delete_meeting env p n of
                       Inl msg \<Rightarrow>
                         (Inl (HTTPException HTTP_502_BAD_GATEWAY (''Infra API Error: '' @ msg)),
                          db1, [Call_get_transcript p n, Call_delete_meeting p n])
                     | Inr _ \<Rightarrow>
                         (Inr ''Webhook processed successfully'',
                          db1, [Call_get_transcript p n, Call_delete_meeting p n])))))"

section \<open>\<^verbatim>\<open>routers/bots.py\<close>\<close>

definition request_bot ::
  "'t env \<Rightarrow> MeetingCreate \<Rightarrow> User \<Rightarrow> 't database \<Rightarrow>
     (http_error + Meeting) \<times> 't database \<times> infra_call list" where
  "request_bot env meeting_data current_user db =
     (let p = platform_value (mc_platform meeting_data);
          n = mc_native_meeting_id meeting_data in
      case select_meeting db p n of
        Some existing_meeting \<Rightarrow>
          (case select_link db (u_id current_user) (m_id existing_meeting) of
             Some link \<Rightarrow> (Inr existing_meeting, db, [])
           | None \<Rightarrow>
               (case db_commit env 0
                       [AddUserMeeting (u_id current_user) (m_id existing_meeting)] db of
                  Inl e \<Rightarrow> (Inl (Unhandled e), db, [])
                | Inr db1 \<Rightarrow> (Inr existing_meeting, db1, [])))
      | None \<Rightarrow>
          (case infra_request_bot env p n of
             Inl msg \<Rightarrow>
               (Inl (HTTPException HTTP_502_BAD_GATEWAY (''Infra API error: '' @ msg)),
                db, [Call_request_bot p n])
           | Inr infra_response \<Rightarrow>
               (case db_commit env 0
                       [AddMeeting p n ''active''
                          (Some [(''is_live'', JBool True),
                                 (''infra_meeting_id'', dict_get infra_response ''id'' JNone)])]
                       db of
                  Inl e \<Rightarrow> (Inl (Unhandled e), db, [Call_request_bot p n])
                | Inr db1 \<Rightarrow>
                    (let new_meeting =
                           \<lparr>m_id = meetings_id_seq db1, m_platform = p,
                            m_platform_specific_id = n, m_status = ''active'',
                            m_data = Some [(''is_live'', JBool True),
                                           (''infra_meeting_id'',
                                            dict_get infra_response ''id'' JNone)]\<rparr> in
                     case db_commit env 1
                            [AddUserMeeting (u_id current_user) (m_id new_meeting)] db1 of
                       Inl e \<Rightarrow> (Inl (Unhandled e), db1, [Call_request_bot p n])
                     | Inr db2 \<Rightarrow> (Inr new_meeting, db2, [Call_request_bot p n])))))"

section \<open>\<^verbatim>\<open>routers/transcripts.py\<close>\<close>

definition from_orm :: "'t TranscriptionModel \<Rightarrow> 't TranscriptionSegment" where
  "from_orm r =
     \<lparr>start_time = tr_start_time r, end_time = tr_end_time r, text' = tr_text r,
      speaker = tr_speaker r, language = tr_language r\<rparr>"

text \<open>The endpoint answers either with what the upstream service said (a live
  meeting) or with the response assembled from the local rows. The response schema
  declares \<^verbatim>\<open>segments\<close> only; the other keyword arguments the handler passes
  (\<^verbatim>\<open>id\<close>, \<^verbatim>\<open>platform\<close>, \<^verbatim>\<open>native_meeting_id\<close>, \<^verbatim>\<open>status\<close>, the two timestamps) are
  attributes of the meeting row that the schema drops.\<close>

datatype 't transcript_reply =
    Proxied "'t TranscriptionSegment list option"
  | Cached "'t TranscriptionResponse"

definition get_transcript ::
  "('t::linorder) env \<Rightarrow> Platform \<Rightarrow> string \<Rightarrow> User \<Rightarrow> 't database \<Rightarrow>
     (http_error + 't transcript_reply) \<times> infra_call list" where
  "get_transcript env platform native_meeting_id current_user db =
     (let p = platform_value platform in
      case select_meeting_of_user db p native_meeting_id (u_id current_user) of
        None \<Rightarrow>
          (Inl (HTTPException HTTP_404_NOT_FOUND
                  ''Meeting not found or you do not have access''), [])
      | Some meeting \<Rightarrow>
          (case m_data meeting of
             None \<Rightarrow>
               (Inl (Unhandled (AttributeError ''NoneType object has no attribute get'')), [])
           | Some d \<Rightarrow>
               if truthy (dict_get d ''is_live'' (JBool False))
               then (case infra_get_transcript env p native_meeting_id of
                       Inl msg \<Rightarrow>
                         (Inl (HTTPException HTTP_502_BAD_GATEWAY (''Infra API error: '' @ msg)),
                          [Call_get_transcript p native_meeting_id])
                     | Inr infra_response \<Rightarrow>
                         (Inr (Proxied infra_response),
                          [Call_get_transcript p native_meeting_id]))
               else (Inr (Cached \<lparr>segments =
                            map from_orm (select_transcriptions db (m_id meeting))\<rparr>), [])))"

section \<open>\<^verbatim>\<open>routers/admin.py\<close>\<close>

definition ascii_letters :: string where
  "ascii_letters = ''abcdefghijklmnopqrstuvwxyzABCDEFGHIJKLMNOPQRSTUVWXYZ''"

definition digits :: string where
  "digits = ''0123456789''"

text \<open>\<^verbatim>\<open>secrets.choice(seq)\<close> is \<^verbatim>\<open>seq[randbelow(len(seq))]\<close>; the \<open>i\<close>-th draw of the
  request is reduced below the length.\<close>

definition secrets_choice :: "'t env \<Rightarrow> nat \<Rightarrow> 'a list \<Rightarrow> 'a" where
  "secrets_choice env i seq = seq ! (secrets_randbits env i mod length seq)"

definition generate_secure_token :: "'t env \<Rightarrow> nat \<Rightarrow> string" where
  "generate_secure_token env len =
     (let alphabet = ascii_letters @ digits in
      map (\<lambda>i. secrets_choice env i alphabet) [0..<len])"

definition create_token_for_user ::
  "'t env \<Rightarrow> int \<Rightarrow> 't database \<Rightarrow> (http_error + APIToken) \<times> 't database" where
  "create_token_for_user env user_id db =
     (let token = generate_secure_token env 40 in
      case db_commit env 0 [AddAPIToken token user_id] db of
        Inl e \<Rightarrow> (Inl (Unhandled e), db)
      | Inr db1 \<Rightarrow>
          (Inr \<lparr>t_id = api_tokens_id_seq db1, t_token = token, t_user_id = user_id\<rparr>, db1))"

section \<open>A small database and environment\<close>

definition example_meeting :: Meeting where
  "example_meeting =
     \<lparr>m_id = 1, m_platform = ''google_meet'', m_platform_specific_id = ''abc-123'',
      m_status = ''active'',
      m_data = Some [(''is_live'', JBool True), (''infra_meeting_id'', JInt 77)]\<rparr>"

definition user1 :: User where
  "user1 = \<lparr>u_id = 1, u_email = ''u1@example.com''\<rparr>"

definition user2 :: User where
  "user2 = \<lparr>u_id = 2, u_email = ''u2@example.com''\<rparr>"

definition example_db :: "int database" where
  "example_db =
     \<lparr>users = [user1, user2],
      api_tokens = [],
      meetings = [example_meeting],
      user_meetings = [\<lparr>um_user_id = 1, um_meeting_id = 1\<rparr>],
      transcriptions = [],
      meetings_id_seq = 1,
      api_tokens_id_seq = 0\<rparr>"

definition example_payload :: WebhookPayload where
  "example_payload = \<lparr>wp_platform = google_meet, wp_native_meeting_id = ''abc-123''\<rparr>"

definition example_request :: MeetingCreate where
  "example_request = \<lparr>mc_platform = google_meet, mc_native_meeting_id = ''abc-123''\<rparr>"

definition example_segments :: "int TranscriptionSegment list" where
  "example_segments =
     [\<lparr>start_time = 5, end_time = 7, text' = ''second'', speaker = None, language = None\<rparr>,
      \<lparr>start_time = 1, end_time = 4, text' = ''first'', speaker = Some ''A'',
        language = Some ''en''\<rparr>]"

definition example_env :: "int env" where
  "example_env =
     \<lparr>infra_request_bot = (\<lambda>p n. Inr [(''id'', JInt 77)]),
      infra_get_transcript = (\<lambda>p n. Inr (Some example_segments)),
      infra_delete_meeting = (\<lambda>p n. Inr ()),
      commit_fault = (\<lambda>k. None),
      secrets_randbits = (\<lambda>i. 7 * i + 3)\<rparr>"

definition storage_fault_env :: "int env" where
  "storage_fault_env =
     example_env\<lparr>commit_fault := (\<lambda>k. if k = 0 then Some ''connection lost'' else None)\<rparr>"

definition link_fault_env :: "int env" where
  "link_fault_env =
     example_env\<lparr>commit_fault := (\<lambda>k. if k = 1 then Some ''connection lost'' else None)\<rparr>"

definition cleanup_fault_env :: "int env" where
  "cleanup_fault_env =
     example_env\<lparr>infra_delete_meeting := (\<lambda>p n. Inl ''upstream unavailable'')\<rparr>"

definition upstream_down_env :: "int env" where
  "upstream_down_env =
     example_env\<lparr>infra_request_bot := (\<lambda>p n. Inl ''upstream unavailable'')\<rparr>"

definition other_request :: MeetingCreate where
  "other_request = \<lparr>mc_platform = zoom, mc_native_meeting_id = ''9876''\<rparr>"

definition archived_meeting :: Meeting where
  "archived_meeting =
     example_meeting\<lparr>m_data := Some [(''is_live'', JBool False), (''infra_meeting_id'', JInt 77),
                                     (''transcript_cached'', JBool True)]\<rparr>"

definition archived_db :: "int database" where
  "archived_db =
     example_db\<lparr>meetings := [archived_meeting],
                transcriptions := map (segment_row 1) example_segments\<rparr>"

section \<open>Facts about queries, dicts and commits\<close>

lemma first_None: "first xs = None \<longleftrightarrow> xs = []"
  by (cases xs) (auto simp: first_def)

lemma first_filter_None: "first (filter P xs) = None \<longleftrightarrow> (\<forall>x \<in> set xs. \<not> P x)"
  by (induction xs) (auto simp: first_def)

lemma first_filter_Some: "first (filter P xs) = Some x \<Longrightarrow> x \<in> set xs \<and> P x"
  by (induction xs) (auto simp: first_def split: if_splits)

lemma first_filter_append:
  "first (filter P (xs @ ys)) =
     (case first (filter P xs) of None \<Rightarrow> first (filter P ys) | Some x \<Rightarrow> Some x)"
  by (induction xs) (auto simp: first_def)

lemma first_filter_map:
  "(\<And>x. P (f x) = P x) \<Longrightarrow> first (filter P (map f xs)) = map_option f (first (filter P xs))"
  by (induction xs) (auto simp: first_def)

lemma map_of_dict_set: "map_of (dict_set k v d) = (map_of d)(k \<mapsto> v)"
  by (induction d) (auto simp: fun_eq_iff)

lemma dict_get_set_same: "dict_get (dict_set k v d) k x = v"
  by (simp add: dict_get_def map_of_dict_set)

lemma dict_get_set_other: "k' \<noteq> k \<Longrightarrow> dict_get (dict_set k v d) k' x = dict_get d k' x"
  by (simp add: dict_get_def map_of_dict_set)

lemma flush_transcriptions:
  "flush (map (\<lambda>s. AddTranscription (f s)) segs @ ps) db =
     flush ps (db\<lparr>transcriptions := transcriptions db @ map f segs\<rparr>)"
  by (induction segs arbitrary: db) auto

lemma archived_data_flags:
  "dict_get (archived_data d) ''is_live'' x = JBool False"
  "dict_get (archived_data d) ''transcript_cached'' x = JBool True"
  by (simp_all add: archived_data_def dict_get_set_same dict_get_set_other)

lemma commit_webhook:
  "commit_fault env 0 = None \<Longrightarrow>
   db_commit env 0 (map (\<lambda>s. AddTranscription (segment_row i s)) segs @ [ModifyMeetingData i d]) db =
     Inr (db\<lparr>transcriptions := transcriptions db @ map (segment_row i) segs,
             meetings := map (\<lambda>m. if m_id m = i then m\<lparr>m_data := Some d\<rparr> else m) (meetings db)\<rparr>)"
  by (simp add: db_commit_def flush_transcriptions)


lemma commit_link_Inr:
  "db_commit env k [AddUserMeeting u m] db = Inr db1 \<Longrightarrow>
     db1 = db\<lparr>user_meetings := user_meetings db @ [\<lparr>um_user_id = u, um_meeting_id = m\<rparr>]\<rparr> \<and>
     (\<forall>l \<in> set (user_meetings db). \<not> (um_user_id l = u \<and> um_meeting_id l = m))"
  by (auto simp: db_commit_def split: option.splits if_splits)

lemma commit_link_ok:
  "commit_fault env k = None \<Longrightarrow> select_link db u m = None \<Longrightarrow>
   db_commit env k [AddUserMeeting u m] db =
     Inr (db\<lparr>user_meetings := user_meetings db @ [\<lparr>um_user_id = u, um_meeting_id = m\<rparr>]\<rparr>)"
  by (auto simp: db_commit_def select_link_def first_filter_None)

lemma commit_meeting_Inr:
  "db_commit env k [AddMeeting p n st d] db = Inr db1 \<Longrightarrow>
     db1 = db\<lparr>meetings := meetings db @
                 [\<lparr>m_id = meetings_id_seq db + 1, m_platform = p,
                   m_platform_specific_id = n, m_status = st, m_data = d\<rparr>],
               meetings_id_seq := meetings_id_seq db + 1\<rparr>"
  by (auto simp: db_commit_def split: option.splits if_splits)

lemma commit_meeting_ok:
  "commit_fault env k = None \<Longrightarrow> select_meeting db p n = None \<Longrightarrow>
   db_commit env k [AddMeeting p n st d] db =
     Inr (db\<lparr>meetings := meetings db @
                 [\<lparr>m_id = meetings_id_seq db + 1, m_platform = p,
                   m_platform_specific_id = n, m_status = st, m_data = d\<rparr>],
               meetings_id_seq := meetings_id_seq db + 1\<rparr>)"
  by (auto simp: db_commit_def select_meeting_def first_filter_None)

lemma filter_distinct_key:
  "distinct (map f xs) \<Longrightarrow> first (filter (\<lambda>x. f x = k) xs) = Some y \<Longrightarrow>
     filter (\<lambda>x. f x = k) xs = [y]"
proof (induction xs)
  case Nil
  then show ?case by (simp add: first_def)
next
  case (Cons x xs)
  show ?case
  proof (cases "f x = k")
    case True
    from Cons.prems have "f x \<notin> f ` set xs" by simp
    with True have "\<forall>z \<in> set xs. f z \<noteq> k" by blast
    then have "filter (\<lambda>x. f x = k) xs = []" by (simp add: filter_empty_conv)
    with True Cons.prems(2) show ?thesis by (simp add: first_def)
  next
    case False
    with Cons show ?thesis by simp
  qed
qed

lemma filter_distinct_mem:
  "distinct xs \<Longrightarrow> x \<in> set xs \<Longrightarrow> filter (\<lambda>l. l = x) xs = [x]"
  by (induction xs) (auto simp: filter_empty_conv)

lemma link_eq: "(um_user_id l = a \<and> um_meeting_id l = b) = (l = \<lparr>um_user_id = a, um_meeting_id = b\<rparr>)"
  by (cases l) auto

section \<open>Finalization by the webhook\<close>

lemma select_meeting_archived:
  assumes "select_meeting db p n = Some meeting"
  shows "select_meeting
           (db\<lparr>transcriptions := ts,
               meetings := map (\<lambda>m. if m_id m = i then m\<lparr>m_data := Some d\<rparr> else m)
                             (meetings db)\<rparr>) p n
         = Some (if m_id meeting = i then meeting\<lparr>m_data := Some d\<rparr> else meeting)"
proof -
  let ?upd = "\<lambda>m. if m_id m = i then m\<lparr>m_data := Some d\<rparr> else m"
  let ?P = "\<lambda>m. m_platform m = p \<and> m_platform_specific_id m = n"
  have "first (filter ?P (map ?upd (meetings db))) = map_option ?upd (first (filter ?P (meetings db)))"
    by (rule first_filter_map) simp
  also have "\<dots> = Some (?upd meeting)"
    using assms unfolding select_meeting_def by simp
  finally show ?thesis
    unfolding select_meeting_def by simp
qed

lemma handle_webhook_committed:
  assumes "select_meeting db (platform_value (wp_platform payload))
             (wp_native_meeting_id payload) = Some meeting"
      and "infra_get_transcript env (platform_value (wp_platform payload))
             (wp_native_meeting_id payload) = Inr ft"
      and "commit_fault env 0 = None"
  shows "fst (snd (handle_webhook env payload db)) =
           db\<lparr>transcriptions := transcriptions db @
                   map (segment_row (m_id meeting)) (get_segments ft),
               meetings := map (\<lambda>m. if m_id m = m_id meeting
                                      then m\<lparr>m_data := Some (archived_data (m_data meeting))\<rparr>
                                      else m) (meetings db)\<rparr>"
  using assms
  by (auto simp: handle_webhook_def Let_def commit_webhook split: sum.splits)

lemma handle_webhook_not_committed:
  assumes "select_meeting db (platform_value (wp_platform payload))
             (wp_native_meeting_id payload) = Some meeting"
      and "(\<exists>msg. infra_get_transcript env (platform_value (wp_platform payload))
              (wp_native_meeting_id payload) = Inl msg) \<or> commit_fault env 0 \<noteq> None"
  shows "fst (snd (handle_webhook env payload db)) = db \<and>
         (\<exists>e. fst (handle_webhook env payload db) = Inl e)"
  using assms
  by (auto simp: handle_webhook_def Let_def db_commit_def split: sum.splits option.splits)

text \<open>
  Claim C1. A finalization of a registered meeting leaves the database in one of two
  states: the one it found, with an error returned, or the one in which every
  segment of the upstream transcript is stored for the meeting and the attribute bag
  of the meeting has \<^verbatim>\<open>is_live\<close> false and \<^verbatim>\<open>transcript_cached\<close> true. The first is the
  outcome whenever the upstream transcript call or the commit fails, the second
  whenever both succeed.
\<close>

theorem handle_webhook_all_or_nothing:
  assumes found: "select_meeting db (platform_value (wp_platform payload))
                    (wp_native_meeting_id payload) = Some meeting"
      and run: "handle_webhook env payload db = (res, db', calls)"
  shows "let p = platform_value (wp_platform payload);
             n = wp_native_meeting_id payload;
             applied = (\<lambda>ft.
               db\<lparr>transcriptions := transcriptions db @
                       map (segment_row (m_id meeting)) (get_segments ft),
                   meetings := map (\<lambda>m. if m_id m = m_id meeting
                                then m\<lparr>m_data := Some (archived_data (m_data meeting))\<rparr>
                                else m) (meetings db)\<rparr>)
         in (db' = db \<and> (\<exists>e. res = Inl e) \<or>
             (\<exists>ft. infra_get_transcript env p n = Inr ft \<and> db' = applied ft)) \<and>
            ((\<exists>msg. infra_get_transcript env p n = Inl msg) \<or> commit_fault env 0 \<noteq> None
               \<longrightarrow> db' = db \<and> (\<exists>e. res = Inl e)) \<and>
            (\<forall>ft. infra_get_transcript env p n = Inr ft \<and> commit_fault env 0 = None
               \<longrightarrow> db' = applied ft) \<and>
            (\<forall>ft. transcriptions (applied ft) =
                    transcriptions db @ map (segment_row (m_id meeting)) (get_segments ft) \<and>
                  (\<exists>m' d. select_meeting (applied ft) p n = Some m' \<and>
                     m_id m' = m_id meeting \<and> m_data m' = Some d \<and>
                     dict_get d ''is_live'' JNone = JBool False \<and>
                     dict_get d ''transcript_cached'' JNone = JBool True))"
proof -
  let ?p = "platform_value (wp_platform payload)"
  let ?n = "wp_native_meeting_id payload"
  let ?applied = "\<lambda>ft.
               db\<lparr>transcriptions := transcriptions db @
                       map (segment_row (m_id meeting)) (get_segments ft),
                   meetings := map (\<lambda>m. if m_id m = m_id meeting
                                then m\<lparr>m_data := Some (archived_data (m_data meeting))\<rparr>
                                else m) (meetings db)\<rparr>"
  from run have proj: "fst (handle_webhook env payload db) = res"
                      "fst (snd (handle_webhook env payload db)) = db'"
    by simp_all
  have fail: "db' = db \<and> (\<exists>e. res = Inl e)"
    if "(\<exists>msg. infra_get_transcript env ?p ?n = Inl msg) \<or> commit_fault env 0 \<noteq> None"
    using handle_webhook_not_committed [OF found that] proj by simp
  have ok: "db' = ?applied ft"
    if "infra_get_transcript env ?p ?n = Inr ft" "commit_fault env 0 = None" for ft
    using handle_webhook_committed [OF found that] proj by simp
  have two: "db' = db \<and> (\<exists>e. res = Inl e) \<or>
             (\<exists>ft. infra_get_transcript env ?p ?n = Inr ft \<and> db' = ?applied ft)"
  proof (cases "infra_get_transcript env ?p ?n")
    case (Inl msg)
    with fail show ?thesis by blast
  next
    case (Inr ft)
    show ?thesis
    proof (cases "commit_fault env 0")
      case None
      with Inr ok show ?thesis by blast
    next
      case (Some msg)
      with fail show ?thesis by simp
    qed
  qed
  have flags: "\<exists>m' d. select_meeting (?applied ft) ?p ?n = Some m' \<and>
                     m_id m' = m_id meeting \<and> m_data m' = Some d \<and>
                     dict_get d ''is_live'' JNone = JBool False \<and>
                     dict_get d ''transcript_cached'' JNone = JBool True" for ft
    unfolding select_meeting_archived [OF found]
    by (simp add: archived_data_flags)
  have before: "(\<exists>msg. infra_get_transcript env ?p ?n = Inl msg) \<or> commit_fault env 0 \<noteq> None
                  \<longrightarrow> db' = db \<and> (\<exists>e. res = Inl e)"
    using fail by blast
  have after: "\<forall>ft. infra_get_transcript env ?p ?n = Inr ft \<and> commit_fault env 0 = None
                  \<longrightarrow> db' = ?applied ft"
    using ok by blast
  have state: "\<forall>ft. transcriptions (?applied ft) =
                    transcriptions db @ map (segment_row (m_id meeting)) (get_segments ft) \<and>
                  (\<exists>m' d. select_meeting (?applied ft) ?p ?n = Some m' \<and>
                     m_id m' = m_id meeting \<and> m_data m' = Some d \<and>
                     dict_get d ''is_live'' JNone = JBool False \<and>
                     dict_get d ''transcript_cached'' JNone = JBool True)"
    using flags by simp
  show ?thesis
    unfolding Let_def
  proof (intro conjI)
    show "db' = db \<and> (\<exists>e. res = Inl e) \<or>
             (\<exists>ft. infra_get_transcript env ?p ?n = Inr ft \<and> db' = ?applied ft)"
      by (rule two)
  qed (rule before, rule after, rule state)
qed

text \<open>
  Claim C9. Finalization does not look at \<^verbatim>\<open>transcript_cached\<close>: when a first delivery
  of the webhook has committed (so that the meeting has \<^verbatim>\<open>transcript_cached\<close> true) and
  the same payload is delivered again with the same upstream transcript, the second
  delivery appends every segment once more; with a non-empty transcript it is not a
  no-op.
\<close>

theorem handle_webhook_redelivery_duplicates:
  assumes found: "select_meeting db (platform_value (wp_platform payload))
                    (wp_native_meeting_id payload) = Some meeting"
      and t1: "infra_get_transcript env1 (platform_value (wp_platform payload))
                 (wp_native_meeting_id payload) = Inr ft"
      and t2: "infra_get_transcript env2 (platform_value (wp_platform payload))
                 (wp_native_meeting_id payload) = Inr ft"
      and s1: "commit_fault env1 0 = None"
      and s2: "commit_fault env2 0 = None"
      and run1: "handle_webhook env1 payload db = (res1, db1, calls1)"
      and run2: "handle_webhook env2 payload db1 = (res2, db2, calls2)"
  shows "(\<exists>m1 d1. select_meeting db1 (platform_value (wp_platform payload))
                    (wp_native_meeting_id payload) = Some m1 \<and>
                  m_data m1 = Some d1 \<and>
                  dict_get d1 ''transcript_cached'' JNone = JBool True) \<and>
         transcriptions db1 =
           transcriptions db @ map (segment_row (m_id meeting)) (get_segments ft) \<and>
         transcriptions db2 =
           transcriptions db @ map (segment_row (m_id meeting)) (get_segments ft)
                             @ map (segment_row (m_id meeting)) (get_segments ft) \<and>
         (get_segments ft \<noteq> [] \<longrightarrow> db2 \<noteq> db1)"
proof -
  let ?p = "platform_value (wp_platform payload)"
  let ?n = "wp_native_meeting_id payload"
  let ?m1 = "meeting\<lparr>m_data := Some (archived_data (m_data meeting))\<rparr>"
  from run1 have "fst (snd (handle_webhook env1 payload db)) = db1" by simp
  with handle_webhook_committed [OF found t1 s1]
  have db1: "db1 = db\<lparr>transcriptions := transcriptions db @
                         map (segment_row (m_id meeting)) (get_segments ft),
                       meetings := map (\<lambda>m. if m_id m = m_id meeting
                                      then m\<lparr>m_data := Some (archived_data (m_data meeting))\<rparr>
                                      else m) (meetings db)\<rparr>"
    by simp
  have found1: "select_meeting db1 ?p ?n = Some ?m1"
    unfolding db1 select_meeting_archived [OF found] by simp
  from run2 have "fst (snd (handle_webhook env2 payload db1)) = db2" by simp
  with handle_webhook_committed [OF found1 t2 s2]
  have tr2: "transcriptions db2 =
               transcriptions db1 @ map (segment_row (m_id meeting)) (get_segments ft)"
    by auto
  have tr1: "transcriptions db1 =
               transcriptions db @ map (segment_row (m_id meeting)) (get_segments ft)"
    unfolding db1 by simp
  have "db2 \<noteq> db1" if "get_segments ft \<noteq> []"
  proof
    assume "db2 = db1"
    with tr2 have "map (segment_row (m_id meeting)) (get_segments ft) = []" by simp
    with that show False by simp
  qed
  moreover have "\<exists>m1 d1. select_meeting db1 ?p ?n = Some m1 \<and> m_data m1 = Some d1 \<and>
                   dict_get d1 ''transcript_cached'' JNone = JBool True"
    unfolding found1 by (simp add: archived_data_flags)
  ultimately show ?thesis
    using tr1 tr2 by simp
qed

text \<open>
  Claim C4, as the code has it. When the archival has committed and only the upstream
  delete-meeting call fails, \<^verbatim>\<open>handle_webhook\<close> answers 502 with the upstream message:
  the clean-up call is inside the same \<^verbatim>\<open>try\<close> as the rest. The committed state stays:
  the segments are stored and the meeting has \<^verbatim>\<open>is_live\<close> false and
  \<^verbatim>\<open>transcript_cached\<close> true.
\<close>

theorem handle_webhook_cleanup_failure:
  assumes found: "select_meeting db (platform_value (wp_platform payload))
                    (wp_native_meeting_id payload) = Some meeting"
      and got: "infra_get_transcript env (platform_value (wp_platform payload))
                  (wp_native_meeting_id payload) = Inr ft"
      and stored: "commit_fault env 0 = None"
      and cleanup: "infra_delete_meeting env (platform_value (wp_platform payload))
                      (wp_native_meeting_id payload) = Inl msg"
      and run: "handle_webhook env payload db = (res, db', calls)"
  shows "res = Inl (HTTPException HTTP_502_BAD_GATEWAY (''Infra API Error: '' @ msg)) \<and>
         transcriptions db' =
           transcriptions db @ map (segment_row (m_id meeting)) (get_segments ft) \<and>
         (\<exists>m' d. select_meeting db' (platform_value (wp_platform payload))
                    (wp_native_meeting_id payload) = Some m' \<and>
                  m_id m' = m_id meeting \<and> m_data m' = Some d \<and>
                  dict_get d ''is_live'' JNone = JBool False \<and>
                  dict_get d ''transcript_cached'' JNone = JBool True)"
proof -
  from run have proj: "fst (snd (handle_webhook env payload db)) = db'" by simp
  have db': "db' = db\<lparr>transcriptions := transcriptions db @
                         map (segment_row (m_id meeting)) (get_segments ft),
                       meetings := map (\<lambda>m. if m_id m = m_id meeting
                                      then m\<lparr>m_data := Some (archived_data (m_data meeting))\<rparr>
                                      else m) (meetings db)\<rparr>"
    using handle_webhook_committed [OF found got stored] proj by simp
  have res: "res = Inl (HTTPException HTTP_502_BAD_GATEWAY (''Infra API Error: '' @ msg))"
    using run found got stored cleanup
    by (auto simp: handle_webhook_def Let_def commit_webhook)
  have "\<exists>m' d. select_meeting db' (platform_value (wp_platform payload))
                    (wp_native_meeting_id payload) = Some m' \<and>
                  m_id m' = m_id meeting \<and> m_data m' = Some d \<and>
                  dict_get d ''is_live'' JNone = JBool False \<and>
                  dict_get d ''transcript_cached'' JNone = JBool True"
    unfolding db' select_meeting_archived [OF found]
    by (simp add: archived_data_flags)
  moreover have "transcriptions db' =
           transcriptions db @ map (segment_row (m_id meeting)) (get_segments ft)"
    unfolding db' by simp
  ultimately show ?thesis using res by simp
qed

section \<open>Requesting a bot\<close>

text \<open>
  Claim C2. When a meeting row with the requested (platform, native meeting id) is
  already stored, \<^verbatim>\<open>request_bot\<close> calls no upstream operation and leaves the table of
  meetings as it is, the stored row being the only one with that natural key; every
  link that was stored stays. The call returns the stored row, and the caller's link
  is stored afterwards, whenever the link was there already or the storage engine
  does not fail the one commit of this path, the insert of the missing link.
\<close>

theorem request_bot_existing_meeting:
  assumes found: "select_meeting db (platform_value (mc_platform md)) (mc_native_meeting_id md)
                    = Some existing"
      and uniq: "distinct (map (\<lambda>m. (m_platform m, m_platform_specific_id m)) (meetings db))"
      and run: "request_bot env md u db = (res, db', calls)"
  shows "calls = [] \<and> meetings db' = meetings db \<and>
         filter (\<lambda>m. m_platform m = platform_value (mc_platform md) \<and>
                      m_platform_specific_id m = mc_native_meeting_id md) (meetings db')
           = [existing] \<and>
         set (user_meetings db) \<subseteq> set (user_meetings db') \<and>
         (select_link db (u_id u) (m_id existing) \<noteq> None \<or> commit_fault env 0 = None \<longrightarrow>
            res = Inr existing \<and>
            \<lparr>um_user_id = u_id u, um_meeting_id = m_id existing\<rparr> \<in> set (user_meetings db'))"
proof -
  let ?p = "platform_value (mc_platform md)"
  let ?n = "mc_native_meeting_id md"
  have "filter (\<lambda>m. (m_platform m, m_platform_specific_id m) = (?p, ?n)) (meetings db) = [existing]"
    using uniq found unfolding select_meeting_def
    by (intro filter_distinct_key) simp_all
  then have one: "filter (\<lambda>m. m_platform m = ?p \<and> m_platform_specific_id m = ?n) (meetings db)
                    = [existing]"
    by simp
  show ?thesis
  proof (cases "select_link db (u_id u) (m_id existing)")
    case None
    show ?thesis
    proof (cases "commit_fault env 0")
      case no_fault: None
      from commit_link_ok [OF no_fault None] found run None one show ?thesis
        by (auto simp: request_bot_def Let_def)
    next
      case (Some msg)
      then have "db_commit env 0 [AddUserMeeting (u_id u) (m_id existing)] db
                   = Inl (DBAPIError msg)"
        by (simp add: db_commit_def)
      with found run None one Some show ?thesis
        by (auto simp: request_bot_def Let_def)
    qed
  next
    case (Some link)
    then have "link \<in> set (user_meetings db) \<and>
               um_user_id link = u_id u \<and> um_meeting_id link = m_id existing"
      unfolding select_link_def by (auto dest: first_filter_Some)
    then have "\<lparr>um_user_id = u_id u, um_meeting_id = m_id existing\<rparr> \<in> set (user_meetings db)"
      by (auto simp: link_eq)
    with found run Some one show ?thesis
      by (auto simp: request_bot_def Let_def)
  qed
qed

text \<open>
  Claim C3. Linking is idempotent: when a call of \<^verbatim>\<open>request_bot\<close> by a user has
  returned a meeting, a second call by the same user for the same meeting, whatever
  the environment does, returns the same meeting without raising, writes nothing,
  calls nothing upstream, and exactly one linkage row of that user and that meeting
  is stored.
\<close>

theorem request_bot_twice_one_link:
  assumes uniq: "distinct (user_meetings db)"
      and run: "request_bot env md u db = (Inr m, db1, calls)"
  shows "request_bot env2 md u db1 = (Inr m, db1, []) \<and>
         filter (\<lambda>l. um_user_id l = u_id u \<and> um_meeting_id l = m_id m) (user_meetings db1)
           = [\<lparr>um_user_id = u_id u, um_meeting_id = m_id m\<rparr>]"
proof -
  let ?p = "platform_value (mc_platform md)"
  let ?n = "mc_native_meeting_id md"
  let ?l = "\<lparr>um_user_id = u_id u, um_meeting_id = m_id m\<rparr>"
  have goal: "request_bot env2 md u db1 = (Inr m, db1, []) \<and>
              filter (\<lambda>l. l = ?l) (user_meetings db1) = [?l]"
    if sel: "select_meeting db1 ?p ?n = Some m"
      and mem: "?l \<in> set (user_meetings db1)" and dist: "distinct (user_meetings db1)"
  proof -
    have "\<exists>link. select_link db1 (u_id u) (m_id m) = Some link"
      using mem unfolding select_link_def
      by (cases "first (filter (\<lambda>l. um_user_id l = u_id u \<and> um_meeting_id l = m_id m)
                          (user_meetings db1))")
         (auto simp: first_filter_None)
    with sel have "request_bot env2 md u db1 = (Inr m, db1, [])"
      by (auto simp: request_bot_def Let_def)
    with filter_distinct_mem [OF dist mem] show ?thesis by simp
  qed
  have "request_bot env2 md u db1 = (Inr m, db1, []) \<and>
        filter (\<lambda>l. l = ?l) (user_meetings db1) = [?l]"
  proof (cases "select_meeting db ?p ?n")
    case (Some existing)
    show ?thesis
    proof (cases "select_link db (u_id u) (m_id existing)")
      case None
      with Some run obtain
        c: "db_commit env 0 [AddUserMeeting (u_id u) (m_id existing)] db = Inr db1"
        and m: "m = existing"
        by (auto simp: request_bot_def Let_def split: sum.splits)
      from commit_link_Inr [OF c] m uniq Some show ?thesis
        by (intro goal) (auto simp: select_meeting_def link_eq)
    next
      case (Some link)
      with \<open>select_meeting db ?p ?n = Some existing\<close> run
      have eq: "m = existing" "db1 = db"
        by (auto simp: request_bot_def Let_def)
      from Some have "link \<in> set (user_meetings db) \<and>
                 um_user_id link = u_id u \<and> um_meeting_id link = m_id existing"
        unfolding select_link_def by (auto dest: first_filter_Some)
      then have "?l \<in> set (user_meetings db)"
        using eq by (auto simp: link_eq)
      with eq uniq \<open>select_meeting db ?p ?n = Some existing\<close> show ?thesis
        by (intro goal) simp_all
    qed
  next
    case None
    with run obtain resp db0 where
      c0: "db_commit env 0 [AddMeeting ?p ?n ''active''
             (Some [(''is_live'', JBool True),
                    (''infra_meeting_id'', dict_get resp ''id'' JNone)])] db = Inr db0"
      and c1: "db_commit env 1 [AddUserMeeting (u_id u) (meetings_id_seq db0)] db0 = Inr db1"
      and m: "m = \<lparr>m_id = meetings_id_seq db0, m_platform = ?p,
                   m_platform_specific_id = ?n, m_status = ''active'',
                   m_data = Some [(''is_live'', JBool True),
                                  (''infra_meeting_id'', dict_get resp ''id'' JNone)]\<rparr>"
      by (auto simp: request_bot_def Let_def split: sum.splits)
    from None have none: "filter (\<lambda>m. m_platform m = ?p \<and> m_platform_specific_id m = ?n)
                            (meetings db) = []"
      by (simp add: select_meeting_def first_None)
    have sel: "select_meeting db1 ?p ?n = Some m"
      using commit_meeting_Inr [OF c0] commit_link_Inr [OF c1] m none
      by (simp add: select_meeting_def first_def)
    from commit_meeting_Inr [OF c0] commit_link_Inr [OF c1] m uniq sel show ?thesis
      by (intro goal) (auto simp: link_eq)
  qed
  then show ?thesis by (simp add: link_eq)
qed

text \<open>
  Claim C5. When no meeting row has the requested natural key and the upstream
  provisioning call fails, \<^verbatim>\<open>request_bot\<close> answers 502 with the upstream message and
  the database is the one it found: it has no meeting row with that key and no
  linkage row that refers to such a meeting.
\<close>

theorem request_bot_upstream_failure:
  assumes none: "select_meeting db (platform_value (mc_platform md)) (mc_native_meeting_id md)
                   = None"
      and down: "infra_request_bot env (platform_value (mc_platform md))
                   (mc_native_meeting_id md) = Inl msg"
  shows "request_bot env md u db =
           (Inl (HTTPException HTTP_502_BAD_GATEWAY (''Infra API error: '' @ msg)), db,
            [Call_request_bot (platform_value (mc_platform md)) (mc_native_meeting_id md)]) \<and>
         filter (\<lambda>m. m_platform m = platform_value (mc_platform md) \<and>
                      m_platform_specific_id m = mc_native_meeting_id md)
           (meetings (fst (snd (request_bot env md u db)))) = [] \<and>
         filter (\<lambda>l. \<exists>m \<in> set (meetings (fst (snd (request_bot env md u db)))).
                        m_id m = um_meeting_id l \<and>
                        m_platform m = platform_value (mc_platform md) \<and>
                        m_platform_specific_id m = mc_native_meeting_id md)
           (user_meetings (fst (snd (request_bot env md u db)))) = []"
proof -
  have run: "request_bot env md u db =
           (Inl (HTTPException HTTP_502_BAD_GATEWAY (''Infra API error: '' @ msg)), db,
            [Call_request_bot (platform_value (mc_platform md)) (mc_native_meeting_id md)])"
    using none down by (simp add: request_bot_def Let_def)
  from none have no_row:
    "\<forall>m \<in> set (meetings db). \<not> (m_platform m = platform_value (mc_platform md) \<and>
                                  m_platform_specific_id m = mc_native_meeting_id md)"
    by (simp add: select_meeting_def first_filter_None)
  then show ?thesis
    unfolding run by (auto simp: filter_empty_conv)
qed

text \<open>The handlers keep the invariant of the sequence.\<close>

lemma ids_issued_cong:
  assumes "map m_id (meetings db') = map m_id (meetings db)"
      and "user_meetings db' = user_meetings db"
      and "meetings_id_seq db' = meetings_id_seq db"
  shows "ids_issued db' = ids_issued db"
proof -
  have eq: "(\<forall>m \<in> set (meetings db'). m_id m \<le> k) = (\<forall>m \<in> set (meetings db). m_id m \<le> k)"
    for k
  proof -
    have "(\<forall>m \<in> set (meetings db'). m_id m \<le> k) =
          (\<forall>i \<in> set (map m_id (meetings db')). i \<le> k)"
      by simp
    also have "\<dots> = (\<forall>i \<in> set (map m_id (meetings db)). i \<le> k)"
      by (simp only: assms(1))
    also have "\<dots> = (\<forall>m \<in> set (meetings db). m_id m \<le> k)"
      by simp
    finally show ?thesis .
  qed
  show ?thesis
    unfolding ids_issued_def by (simp only: eq assms(2,3))
qed

lemma ids_issued_link:
  assumes "ids_issued db" and "m \<in> set (meetings db)"
  shows "ids_issued (db\<lparr>user_meetings := user_meetings db @
                            [\<lparr>um_user_id = u, um_meeting_id = m_id m\<rparr>]\<rparr>)"
  using assms by (simp add: ids_issued_def)

lemma ids_issued_meeting:
  assumes "ids_issued db"
  shows "ids_issued (db\<lparr>meetings := meetings db @
                            [\<lparr>m_id = meetings_id_seq db + 1, m_platform = p,
                              m_platform_specific_id = n, m_status = st, m_data = d\<rparr>],
                        meetings_id_seq := meetings_id_seq db + 1\<rparr>)"
  using assms by (force simp: ids_issued_def)

lemma ids_issued_request_bot:
  assumes inv: "ids_issued db" and run: "request_bot env md u db = (res, db', calls)"
  shows "ids_issued db'"
proof (cases "select_meeting db (platform_value (mc_platform md)) (mc_native_meeting_id md)")
  case (Some existing)
  then have mem: "existing \<in> set (meetings db)"
    unfolding select_meeting_def by (auto dest: first_filter_Some)
  from run Some consider "db' = db"
    | "db_commit env 0 [AddUserMeeting (u_id u) (m_id existing)] db = Inr db'"
    by (auto simp: request_bot_def Let_def split: option.splits sum.splits)
  then show ?thesis
  proof cases
    case 1
    with inv show ?thesis by simp
  next
    case 2
    from commit_link_Inr [OF 2] ids_issued_link [OF inv mem] show ?thesis by simp
  qed
next
  case None
  from run None consider "db' = db"
    | d where "db_commit env 0 [AddMeeting (platform_value (mc_platform md))
                 (mc_native_meeting_id md) ''active'' d] db = Inr db'"
    | d db1 where "db_commit env 0 [AddMeeting (platform_value (mc_platform md))
                 (mc_native_meeting_id md) ''active'' d] db = Inr db1"
        and "db_commit env 1 [AddUserMeeting (u_id u) (meetings_id_seq db1)] db1 = Inr db'"
    by (auto simp: request_bot_def Let_def split: sum.splits)
  then show ?thesis
  proof cases
    case 1
    with inv show ?thesis by simp
  next
    case 2
    from commit_meeting_Inr [OF 2] ids_issued_meeting [OF inv] show ?thesis by simp
  next
    case 3
    from commit_meeting_Inr [OF 3(1)] ids_issued_meeting [OF inv]
    have "ids_issued db1" by simp
    with commit_link_Inr [OF 3(2)] show ?thesis
      by (auto simp: ids_issued_def)
  qed
qed

lemma ids_issued_handle_webhook:
  assumes inv: "ids_issued db" and run: "handle_webhook env payload db = (res, db', calls)"
  shows "ids_issued db'"
proof -
  have "map m_id (meetings db') = map m_id (meetings db) \<and>
        user_meetings db' = user_meetings db \<and> meetings_id_seq db' = meetings_id_seq db"
    using run
    by (auto simp: handle_webhook_def Let_def db_commit_def flush_transcriptions
             split: option.splits sum.splits)
  with inv ids_issued_cong [of db' db] show ?thesis by simp
qed

text \<open>
  Claim C10. The creation path of \<^verbatim>\<open>request_bot\<close> commits the meeting and the link
  separately: when the first commit is accepted and the storage engine fails the
  second, the call ends with the exception, and the database keeps the new meeting
  row with no linkage row that refers to it.
\<close>

theorem request_bot_meeting_without_link:
  assumes none: "select_meeting db (platform_value (mc_platform md)) (mc_native_meeting_id md)
                   = None"
      and inv: "ids_issued db"
      and up: "infra_request_bot env (platform_value (mc_platform md))
                 (mc_native_meeting_id md) = Inr infra_response"
      and c0: "commit_fault env 0 = None"
      and c1: "commit_fault env 1 = Some msg"
      and run: "request_bot env md u db = (res, db', calls)"
  shows "res = Inl (Unhandled (DBAPIError msg)) \<and>
         (\<exists>m. select_meeting db' (platform_value (mc_platform md)) (mc_native_meeting_id md)
                 = Some m \<and>
              m_status m = ''active'' \<and>
              filter (\<lambda>l. um_meeting_id l = m_id m) (user_meetings db') = []) \<and>
         meetings db' \<noteq> meetings db \<and>
         user_meetings db' = user_meetings db"
proof -
  let ?p = "platform_value (mc_platform md)"
  let ?n = "mc_native_meeting_id md"
  let ?d = "Some [(''is_live'', JBool True),
                  (''infra_meeting_id'', dict_get infra_response ''id'' JNone)]"
  let ?m = "\<lparr>m_id = meetings_id_seq db + 1, m_platform = ?p, m_platform_specific_id = ?n,
             m_status = ''active'', m_data = ?d\<rparr>"
  let ?db1 = "db\<lparr>meetings := meetings db @ [?m], meetings_id_seq := meetings_id_seq db + 1\<rparr>"
  have second: "db_commit env (Suc 0) ps dbx = Inl (DBAPIError msg)" for ps and dbx :: "'a database"
    using c1 by (simp add: db_commit_def)
  from run none up have out: "res = Inl (Unhandled (DBAPIError msg))" "db' = ?db1"
    by (simp_all add: request_bot_def Let_def commit_meeting_ok [OF c0 none] second)
  from none have "filter (\<lambda>m. m_platform m = ?p \<and> m_platform_specific_id m = ?n)
                    (meetings db) = []"
    by (simp add: select_meeting_def first_None)
  then have sel: "select_meeting db' ?p ?n = Some ?m"
    unfolding out by (simp add: select_meeting_def first_def)
  from inv have "\<forall>l \<in> set (user_meetings db). um_meeting_id l \<noteq> meetings_id_seq db + 1"
    by (auto simp: ids_issued_def)
  then have "filter (\<lambda>l. um_meeting_id l = m_id ?m) (user_meetings db') = []"
    unfolding out by (simp add: filter_empty_conv)
  with sel out show ?thesis by simp
qed

section \<open>Reading a transcript\<close>

lemma select_meeting_of_user_None:
  "select_meeting_of_user db p n u = None \<longleftrightarrow>
     (\<forall>m \<in> set (meetings db). \<forall>l \<in> set (user_meetings db).
        \<not> (um_meeting_id l = m_id m \<and> m_platform m = p \<and>
           m_platform_specific_id m = n \<and> um_user_id l = u))"
  unfolding select_meeting_of_user_def first_None
  by (auto simp: filter_empty_conv)

text \<open>
  Claim C7. A user who has no linkage row to any meeting with the requested natural
  key gets 404 from \<^verbatim>\<open>get_transcript\<close>, with no upstream call and no transcript; the
  answer is the very one given when no meeting with that key is stored.
\<close>

theorem get_transcript_unlinked_not_found:
  assumes unlinked:
      "\<forall>m \<in> set (meetings db). \<forall>l \<in> set (user_meetings db).
         \<not> (um_meeting_id l = m_id m \<and> m_platform m = platform_value platform \<and>
            m_platform_specific_id m = native_meeting_id \<and> um_user_id l = u_id current_user)"
      and absent: "select_meeting db0 (platform_value platform) native_meeting_id = None"
  shows "get_transcript env platform native_meeting_id current_user db =
           (Inl (HTTPException HTTP_404_NOT_FOUND
                   ''Meeting not found or you do not have access''), []) \<and>
         get_transcript env0 platform native_meeting_id current_user db0 =
           get_transcript env platform native_meeting_id current_user db"
proof -
  from unlinked have "select_meeting_of_user db (platform_value platform) native_meeting_id
                        (u_id current_user) = None"
    by (simp only: select_meeting_of_user_None)
  then have here: "get_transcript env platform native_meeting_id current_user db =
           (Inl (HTTPException HTTP_404_NOT_FOUND
                   ''Meeting not found or you do not have access''), [])"
    by (simp add: get_transcript_def)
  from absent have "\<forall>m \<in> set (meetings db0).
       \<not> (m_platform m = platform_value platform \<and> m_platform_specific_id m = native_meeting_id)"
    by (simp add: select_meeting_def first_filter_None)
  then have "select_meeting_of_user db0 (platform_value platform) native_meeting_id
               (u_id current_user) = None"
    unfolding select_meeting_of_user_None by blast
  then have "get_transcript env0 platform native_meeting_id current_user db0 =
           (Inl (HTTPException HTTP_404_NOT_FOUND
                   ''Meeting not found or you do not have access''), [])"
    by (simp add: get_transcript_def)
  with here show ?thesis by simp
qed

lemma start_time_from_orm: "map start_time (map from_orm rs) = map tr_start_time rs"
  by (simp add: from_orm_def)

lemma start_times_sorted:
  "map tr_start_time (sort_key tr_start_time rs) = sort (map tr_start_time rs)"
  by (rule properties_for_sort [symmetric]) simp_all

lemma start_times_order_free:
  assumes "mset (transcriptions db2) = mset (transcriptions (db :: ('t::linorder) database))"
  shows "map tr_start_time (select_transcriptions db2 i) =
         map tr_start_time (select_transcriptions db i)"
proof -
  let ?P = "\<lambda>r. tr_meeting_id r = i"
  have "mset (filter ?P (transcriptions db2)) = mset (filter ?P (transcriptions db))"
    using assms by (simp only: mset_filter)
  then have "mset (map tr_start_time (filter ?P (transcriptions db2))) =
             mset (map tr_start_time (filter ?P (transcriptions db)))"
    by (simp only: mset_map)
  then have "sort (map tr_start_time (filter ?P (transcriptions db2))) =
             sort (map tr_start_time (filter ?P (transcriptions db)))"
    by (intro properties_for_sort) simp_all
  then show ?thesis
    by (simp only: select_transcriptions_def start_times_sorted)
qed

lemma start_time_o_from_orm: "start_time \<circ> from_orm = tr_start_time"
  by (simp add: fun_eq_iff from_orm_def)

text \<open>
  Claim C6. For a meeting the caller is linked to and whose attribute bag does not
  say it is live, \<^verbatim>\<open>get_transcript\<close> calls nothing upstream and answers with the
  stored segments of that meeting, all of them and no other, in ascending order of
  \<^verbatim>\<open>start_time\<close>. The order of the rows in the table does not matter: any table
  with the same rows gives the same sequence of offsets.
\<close>

theorem get_transcript_archived_sorted:
  assumes linked: "select_meeting_of_user db (platform_value platform) native_meeting_id
                     (u_id current_user) = Some meeting"
      and bag: "m_data meeting = Some d"
      and not_live: "\<not> truthy (dict_get d ''is_live'' (JBool False))"
  shows "\<exists>response.
           get_transcript env platform native_meeting_id current_user db =
             (Inr (Cached response), []) \<and>
           sorted (map start_time (segments response)) \<and>
           mset (segments response) =
             mset (map from_orm (filter (\<lambda>r. tr_meeting_id r = m_id meeting)
                                        (transcriptions db))) \<and>
           (\<forall>db2. meetings db2 = meetings db \<and> user_meetings db2 = user_meetings db \<and>
                  mset (transcriptions db2) = mset (transcriptions db) \<longrightarrow>
                  (\<exists>response2.
                     get_transcript env platform native_meeting_id current_user db2 =
                       (Inr (Cached response2), []) \<and>
                     map start_time (segments response2) = map start_time (segments response)))"
proof -
  let ?rows = "select_transcriptions db (m_id meeting)"
  have run: "get_transcript env platform native_meeting_id current_user db2 =
               (Inr (Cached \<lparr>segments = map from_orm (select_transcriptions db2 (m_id meeting))\<rparr>), [])"
    if "select_meeting_of_user db2 (platform_value platform) native_meeting_id
          (u_id current_user) = Some meeting" for db2 :: "'a database"
    using that bag not_live by (simp add: get_transcript_def)
  have srt: "sorted (map start_time (map from_orm ?rows))"
    unfolding start_time_from_orm select_transcriptions_def by (rule sorted_sort_key)
  have all: "mset (map from_orm ?rows) =
               mset (map from_orm (filter (\<lambda>r. tr_meeting_id r = m_id meeting)
                                          (transcriptions db)))"
    unfolding select_transcriptions_def by simp
  have perm: "\<exists>response2.
                get_transcript env platform native_meeting_id current_user db2 =
                  (Inr (Cached response2), []) \<and>
                map start_time (segments response2) = map start_time (map from_orm ?rows)"
    if same: "meetings db2 = meetings db" "user_meetings db2 = user_meetings db"
      and p: "mset (transcriptions db2) = mset (transcriptions db)" for db2
  proof -
    from linked same have "select_meeting_of_user db2 (platform_value platform)
                             native_meeting_id (u_id current_user) = Some meeting"
      by (simp add: select_meeting_of_user_def)
    from run [OF this] start_times_order_free [OF p, of "m_id meeting"] show ?thesis
      by (simp add: start_time_o_from_orm)
  qed
  from run [OF linked] srt all perm show ?thesis by simp
qed

section \<open>Issuing a token\<close>

lemma generate_secure_token_alnum:
  "length (generate_secure_token env len) = len \<and>
   set (generate_secure_token env len) \<subseteq> set (ascii_letters @ digits)"
proof -
  have "length (ascii_letters @ digits) = 62"
    by (simp add: ascii_letters_def digits_def)
  then have "(ascii_letters @ digits) ! (k mod length (ascii_letters @ digits))
               \<in> set (ascii_letters @ digits)" for k
    by (intro nth_mem) simp
  then show ?thesis
    by (auto simp: generate_secure_token_def secrets_choice_def Let_def)
qed

lemma create_token_for_user_unknown_user:
  assumes "\<not> (\<exists>usr \<in> set (users db). u_id usr = user_id)"
  shows "\<exists>e. create_token_for_user env user_id db = (Inl (Unhandled e), db)"
  using assms
  by (auto simp: create_token_for_user_def Let_def db_commit_def split: option.splits)

lemma create_token_for_user_known_user:
  assumes "\<exists>usr \<in> set (users db). u_id usr = user_id"
      and "commit_fault env 0 = None"
      and "\<not> (\<exists>t \<in> set (api_tokens db). t_token t = generate_secure_token env 40)"
      and "create_token_for_user env user_id db = (res, db')"
  shows "\<exists>tok. res = Inr tok \<and> t_user_id tok = user_id \<and>
               length (t_token tok) = 40 \<and>
               set (t_token tok) \<subseteq> set (ascii_letters @ digits) \<and>
               api_tokens db' = api_tokens db @ [tok]"
  using assms generate_secure_token_alnum [of env 40]
  by (auto simp: create_token_for_user_def Let_def db_commit_def)

section \<open>The theorems at concrete inputs\<close>

lemmas example_defs =
  example_db_def example_meeting_def example_env_def example_request_def example_payload_def
  user1_def user2_def example_segments_def storage_fault_env_def link_fault_env_def
  cleanup_fault_env_def upstream_down_env_def other_request_def archived_meeting_def
  archived_db_def

lemmas handler_defs =
  handle_webhook_def request_bot_def get_transcript_def create_token_for_user_def
  select_meeting_def select_link_def select_meeting_of_user_def select_transcriptions_def
  first_def db_commit_def Let_def segment_row_def get_segments_def archived_data_def
  from_orm_def dict_get_def
  HTTP_404_NOT_FOUND_def HTTP_500_INTERNAL_SERVER_ERROR_def HTTP_502_BAD_GATEWAY_def

theorem request_bot_existing_meeting_witness:
  "select_meeting example_db (platform_value (mc_platform example_request))
     (mc_native_meeting_id example_request) = Some example_meeting \<and>
   distinct (map (\<lambda>m. (m_platform m, m_platform_specific_id m)) (meetings example_db)) \<and>
   commit_fault example_env 0 = None \<and>
   fst (request_bot example_env example_request user2 example_db) = Inr example_meeting \<and>
   snd (snd (request_bot example_env example_request user2 example_db)) = [] \<and>
   meetings (fst (snd (request_bot example_env example_request user2 example_db)))
     = [example_meeting] \<and>
   \<lparr>um_user_id = 2, um_meeting_id = 1\<rparr>
     \<in> set (user_meetings (fst (snd (request_bot example_env example_request user2 example_db)))) \<and>
   \<lparr>um_user_id = 1, um_meeting_id = 1\<rparr>
     \<in> set (user_meetings (fst (snd (request_bot example_env example_request user2 example_db))))"
proof -
  let ?R = "request_bot example_env example_request user2 example_db"
  have found: "select_meeting example_db (platform_value (mc_platform example_request))
                 (mc_native_meeting_id example_request) = Some example_meeting"
    by (simp add: example_defs select_meeting_def first_def)
  have uniq: "distinct (map (\<lambda>m. (m_platform m, m_platform_specific_id m)) (meetings example_db))"
    by (simp add: example_defs)
  have storage: "commit_fault example_env 0 = None"
    by (simp add: example_defs)
  have run: "?R = (fst ?R, fst (snd ?R), snd (snd ?R))"
    by simp
  have old: "\<lparr>um_user_id = 1, um_meeting_id = 1\<rparr> \<in> set (user_meetings example_db)"
    by (simp add: example_defs)
  have ids: "u_id user2 = 2" "m_id example_meeting = 1" "meetings example_db = [example_meeting]"
    by (simp_all add: example_defs)
  from request_bot_existing_meeting [OF found uniq run] found uniq storage old ids
  show ?thesis by auto
qed

theorem request_bot_twice_one_link_witness:
  "distinct (user_meetings example_db) \<and>
   request_bot example_env example_request user2 example_db =
     (Inr example_meeting,
      example_db\<lparr>user_meetings := [\<lparr>um_user_id = 1, um_meeting_id = 1\<rparr>,
                                   \<lparr>um_user_id = 2, um_meeting_id = 1\<rparr>]\<rparr>, []) \<and>
   request_bot example_env example_request user2
     (example_db\<lparr>user_meetings := [\<lparr>um_user_id = 1, um_meeting_id = 1\<rparr>,
                                   \<lparr>um_user_id = 2, um_meeting_id = 1\<rparr>]\<rparr>) =
     (Inr example_meeting,
      example_db\<lparr>user_meetings := [\<lparr>um_user_id = 1, um_meeting_id = 1\<rparr>,
                                   \<lparr>um_user_id = 2, um_meeting_id = 1\<rparr>]\<rparr>, [])"
proof -
  have uniq: "distinct (user_meetings example_db)"
    by (simp add: example_defs)
  have run: "request_bot example_env example_request user2 example_db =
     (Inr example_meeting,
      example_db\<lparr>user_meetings := [\<lparr>um_user_id = 1, um_meeting_id = 1\<rparr>,
                                   \<lparr>um_user_id = 2, um_meeting_id = 1\<rparr>]\<rparr>, [])"
    by (simp add: example_defs request_bot_def select_meeting_def select_link_def first_def
                  db_commit_def Let_def)
  from request_bot_twice_one_link [OF uniq run, of example_env] uniq run
  show ?thesis by simp
qed

lemma example_found:
  "select_meeting example_db (platform_value (wp_platform example_payload))
     (wp_native_meeting_id example_payload) = Some example_meeting"
  by (simp add: example_defs select_meeting_def first_def)

lemma example_finalized:
  "handle_webhook example_env example_payload example_db =
     (Inr ''Webhook processed successfully'', archived_db,
      [Call_get_transcript ''google_meet'' ''abc-123'',
       Call_delete_meeting ''google_meet'' ''abc-123''])"
  by (simp add: example_defs handler_defs)

theorem handle_webhook_all_or_nothing_witness:
  "select_meeting example_db (platform_value (wp_platform example_payload))
     (wp_native_meeting_id example_payload) = Some example_meeting \<and>
   commit_fault storage_fault_env 0 \<noteq> None \<and>
   fst (snd (handle_webhook storage_fault_env example_payload example_db)) = example_db \<and>
   (\<exists>e. fst (handle_webhook storage_fault_env example_payload example_db) = Inl e) \<and>
   infra_get_transcript example_env (platform_value (wp_platform example_payload))
     (wp_native_meeting_id example_payload) = Inr (Some example_segments) \<and>
   commit_fault example_env 0 = None \<and>
   transcriptions (fst (snd (handle_webhook example_env example_payload example_db))) =
     map (segment_row 1) example_segments"
proof -
  let ?F = "handle_webhook storage_fault_env example_payload example_db"
  let ?R = "handle_webhook example_env example_payload example_db"
  have fault: "commit_fault storage_fault_env 0 \<noteq> None"
    by (simp add: example_defs)
  have got: "infra_get_transcript example_env (platform_value (wp_platform example_payload))
               (wp_native_meeting_id example_payload) = Inr (Some example_segments)"
    by (simp add: example_defs)
  have ok: "commit_fault example_env 0 = None"
    by (simp add: example_defs)
  have runF: "?F = (fst ?F, fst (snd ?F), snd (snd ?F))" by simp
  have runR: "?R = (fst ?R, fst (snd ?R), snd (snd ?R))" by simp
  from handle_webhook_all_or_nothing [OF example_found runF] fault
  have unchanged: "fst (snd ?F) = example_db \<and> (\<exists>e. fst ?F = Inl e)"
    unfolding Let_def by blast
  from handle_webhook_all_or_nothing [OF example_found runR] got ok
  have "fst (snd ?R) =
          example_db\<lparr>transcriptions := transcriptions example_db @
                         map (segment_row (m_id example_meeting)) (get_segments (Some example_segments)),
                     meetings := map (\<lambda>m. if m_id m = m_id example_meeting
                                then m\<lparr>m_data := Some (archived_data (m_data example_meeting))\<rparr>
                                else m) (meetings example_db)\<rparr>"
    unfolding Let_def by blast
  then have "transcriptions (fst (snd ?R)) = map (segment_row 1) example_segments"
    by (simp add: example_db_def example_meeting_def get_segments_def)
  with example_found fault got ok unchanged show ?thesis by simp
qed

theorem request_bot_upstream_failure_witness:
  "select_meeting example_db (platform_value (mc_platform other_request))
     (mc_native_meeting_id other_request) = None \<and>
   infra_request_bot upstream_down_env (platform_value (mc_platform other_request))
     (mc_native_meeting_id other_request) = Inl ''upstream unavailable'' \<and>
   request_bot upstream_down_env other_request user1 example_db =
     (Inl (HTTPException 502 ''Infra API error: upstream unavailable''), example_db,
      [Call_request_bot ''zoom'' ''9876''])"
proof -
  have none: "select_meeting example_db (platform_value (mc_platform other_request))
                (mc_native_meeting_id other_request) = None"
    by (simp add: example_defs select_meeting_def first_def)
  have down: "infra_request_bot upstream_down_env (platform_value (mc_platform other_request))
                (mc_native_meeting_id other_request) = Inl ''upstream unavailable''"
    by (simp add: example_defs)
  from request_bot_upstream_failure [OF none down, of user1] none down
  show ?thesis
    by (simp add: other_request_def HTTP_502_BAD_GATEWAY_def)
qed

theorem get_transcript_unlinked_not_found_witness:
  "select_meeting example_db (platform_value google_meet) ''abc-123'' = Some example_meeting \<and>
   select_link example_db (u_id user2) (m_id example_meeting) = None \<and>
   select_meeting (example_db\<lparr>meetings := []\<rparr>) (platform_value google_meet) ''abc-123'' = None \<and>
   get_transcript example_env google_meet ''abc-123'' user2 example_db =
     (Inl (HTTPException 404 ''Meeting not found or you do not have access''), []) \<and>
   get_transcript example_env google_meet ''abc-123'' user2 (example_db\<lparr>meetings := []\<rparr>) =
     get_transcript example_env google_meet ''abc-123'' user2 example_db"
proof -
  have unlinked:
    "\<forall>m \<in> set (meetings example_db). \<forall>l \<in> set (user_meetings example_db).
      \<not> (um_meeting_id l = m_id m \<and> m_platform m = platform_value google_meet \<and>
         m_platform_specific_id m = ''abc-123'' \<and> um_user_id l = u_id user2)"
    by (simp add: example_defs)
  have absent: "select_meeting (example_db\<lparr>meetings := []\<rparr>) (platform_value google_meet)
                  ''abc-123'' = None"
    by (simp add: select_meeting_def first_def)
  have stored: "select_meeting example_db (platform_value google_meet) ''abc-123''
                  = Some example_meeting"
    by (simp add: example_defs select_meeting_def first_def)
  have no_link: "select_link example_db (u_id user2) (m_id example_meeting) = None"
    by (simp add: example_defs select_link_def first_def)
  from get_transcript_unlinked_not_found [OF unlinked absent, of example_env example_env]
    stored no_link absent
  show ?thesis
    by (simp add: HTTP_404_NOT_FOUND_def)
qed

theorem get_transcript_archived_sorted_witness:
  "select_meeting_of_user archived_db (platform_value google_meet) ''abc-123'' (u_id user1)
     = Some archived_meeting \<and>
   m_data archived_meeting = Some [(''is_live'', JBool False), (''infra_meeting_id'', JInt 77),
                                  (''transcript_cached'', JBool True)] \<and>
   \<not> truthy (dict_get [(''is_live'', JBool False), (''infra_meeting_id'', JInt 77),
                       (''transcript_cached'', JBool True)] ''is_live'' (JBool False)) \<and>
   get_transcript example_env google_meet ''abc-123'' user1 archived_db =
     (Inr (Cached \<lparr>segments =
        [\<lparr>start_time = 1, end_time = 4, text' = ''first'', speaker = Some ''A'',
          language = Some ''en''\<rparr>,
         \<lparr>start_time = 5, end_time = 7, text' = ''second'', speaker = None,
          language = None\<rparr>]\<rparr>), []) \<and>
   (\<exists>response. get_transcript example_env google_meet ''abc-123'' user1 archived_db =
                  (Inr (Cached response), []) \<and>
                sorted (map start_time (segments response)))"
proof -
  have linked: "select_meeting_of_user archived_db (platform_value google_meet) ''abc-123''
                  (u_id user1) = Some archived_meeting"
    by (simp add: example_defs select_meeting_of_user_def first_def)
  have bag: "m_data archived_meeting =
               Some [(''is_live'', JBool False), (''infra_meeting_id'', JInt 77),
                     (''transcript_cached'', JBool True)]"
    by (simp add: example_defs)
  have not_live: "\<not> truthy (dict_get [(''is_live'', JBool False), (''infra_meeting_id'', JInt 77),
                       (''transcript_cached'', JBool True)] ''is_live'' (JBool False))"
    by (simp add: dict_get_def)
  have run: "get_transcript example_env google_meet ''abc-123'' user1 archived_db =
     (Inr (Cached \<lparr>segments =
        [\<lparr>start_time = 1, end_time = 4, text' = ''first'', speaker = Some ''A'',
          language = Some ''en''\<rparr>,
         \<lparr>start_time = 5, end_time = 7, text' = ''second'', speaker = None,
          language = None\<rparr>]\<rparr>), [])"
    by (simp add: example_defs handler_defs)
  from get_transcript_archived_sorted [OF linked bag not_live, of example_env]
  have "\<exists>response. get_transcript example_env google_meet ''abc-123'' user1 archived_db =
                  (Inr (Cached response), []) \<and>
                sorted (map start_time (segments response))"
    by blast
  with linked bag not_live run show ?thesis by blast
qed

theorem handle_webhook_redelivery_duplicates_witness:
  "select_meeting example_db (platform_value (wp_platform example_payload))
     (wp_native_meeting_id example_payload) = Some example_meeting \<and>
   infra_get_transcript example_env (platform_value (wp_platform example_payload))
     (wp_native_meeting_id example_payload) = Inr (Some example_segments) \<and>
   commit_fault example_env 0 = None \<and>
   fst (snd (handle_webhook example_env example_payload example_db)) = archived_db \<and>
   transcriptions (fst (snd (handle_webhook example_env example_payload archived_db))) =
     map (segment_row 1) example_segments @ map (segment_row 1) example_segments \<and>
   fst (snd (handle_webhook example_env example_payload archived_db)) \<noteq> archived_db"
proof -
  let ?R = "handle_webhook example_env example_payload archived_db"
  have got: "infra_get_transcript example_env (platform_value (wp_platform example_payload))
               (wp_native_meeting_id example_payload) = Inr (Some example_segments)"
    by (simp add: example_defs)
  have ok: "commit_fault example_env 0 = None"
    by (simp add: example_defs)
  have run2: "?R = (fst ?R, fst (snd ?R), snd (snd ?R))" by simp
  have nonempty: "get_segments (Some example_segments) \<noteq> []"
    by (simp add: get_segments_def example_segments_def)
  from handle_webhook_redelivery_duplicates
         [OF example_found got got ok ok example_finalized run2] nonempty
  have "transcriptions (fst (snd ?R)) =
          transcriptions example_db
            @ map (segment_row (m_id example_meeting)) (get_segments (Some example_segments))
            @ map (segment_row (m_id example_meeting)) (get_segments (Some example_segments))"
    and "fst (snd ?R) \<noteq> archived_db"
    by simp_all
  then have "transcriptions (fst (snd ?R)) =
               map (segment_row 1) example_segments @ map (segment_row 1) example_segments"
    and "fst (snd ?R) \<noteq> archived_db"
    by (simp_all add: example_db_def example_meeting_def get_segments_def)
  with example_found got ok example_finalized show ?thesis by simp
qed

theorem request_bot_meeting_without_link_witness:
  "select_meeting example_db (platform_value (mc_platform other_request))
     (mc_native_meeting_id other_request) = None \<and>
   ids_issued example_db \<and>
   infra_request_bot link_fault_env (platform_value (mc_platform other_request))
     (mc_native_meeting_id other_request) = Inr [(''id'', JInt 77)] \<and>
   commit_fault link_fault_env 0 = None \<and>
   commit_fault link_fault_env 1 = Some ''connection lost'' \<and>
   fst (request_bot link_fault_env other_request user1 example_db) =
     Inl (Unhandled (DBAPIError ''connection lost'')) \<and>
   meetings (fst (snd (request_bot link_fault_env other_request user1 example_db))) \<noteq>
     meetings example_db \<and>
   user_meetings (fst (snd (request_bot link_fault_env other_request user1 example_db))) =
     [\<lparr>um_user_id = 1, um_meeting_id = 1\<rparr>]"
proof -
  let ?R = "request_bot link_fault_env other_request user1 example_db"
  have none: "select_meeting example_db (platform_value (mc_platform other_request))
                (mc_native_meeting_id other_request) = None"
    by (simp add: example_defs select_meeting_def first_def)
  have inv: "ids_issued example_db"
    by (simp add: example_defs ids_issued_def)
  have up: "infra_request_bot link_fault_env (platform_value (mc_platform other_request))
              (mc_native_meeting_id other_request) = Inr [(''id'', JInt 77)]"
    by (simp add: example_defs)
  have c0: "commit_fault link_fault_env 0 = None"
    by (simp add: example_defs)
  have c1: "commit_fault link_fault_env 1 = Some ''connection lost''"
    by (simp add: example_defs)
  have run: "?R = (fst ?R, fst (snd ?R), snd (snd ?R))" by simp
  have links: "user_meetings example_db = [\<lparr>um_user_id = 1, um_meeting_id = 1\<rparr>]"
    by (simp add: example_defs)
  from request_bot_meeting_without_link [OF none inv up c0 c1 run] none inv up c0 c1 links
  show ?thesis by simp
qed

theorem handle_webhook_cleanup_failure_witness:
  "select_meeting example_db (platform_value (wp_platform example_payload))
     (wp_native_meeting_id example_payload) = Some example_meeting \<and>
   infra_get_transcript cleanup_fault_env (platform_value (wp_platform example_payload))
     (wp_native_meeting_id example_payload) = Inr (Some example_segments) \<and>
   commit_fault cleanup_fault_env 0 = None \<and>
   infra_delete_meeting cleanup_fault_env (platform_value (wp_platform example_payload))
     (wp_native_meeting_id example_payload) = Inl ''upstream unavailable'' \<and>
   fst (handle_webhook cleanup_fault_env example_payload example_db) =
     Inl (HTTPException 502 ''Infra API Error: upstream unavailable'') \<and>
   transcriptions (fst (snd (handle_webhook cleanup_fault_env example_payload example_db))) =
     map (segment_row 1) example_segments"
proof -
  let ?R = "handle_webhook cleanup_fault_env example_payload example_db"
  have got: "infra_get_transcript cleanup_fault_env
               (platform_value (wp_platform example_payload))
               (wp_native_meeting_id example_payload) = Inr (Some example_segments)"
    by (simp add: example_defs)
  have ok: "commit_fault cleanup_fault_env 0 = None"
    by (simp add: example_defs)
  have cleanup: "infra_delete_meeting cleanup_fault_env
                   (platform_value (wp_platform example_payload))
                   (wp_native_meeting_id example_payload) = Inl ''upstream unavailable''"
    by (simp add: example_defs)
  have run: "?R = (fst ?R, fst (snd ?R), snd (snd ?R))" by simp
  from handle_webhook_cleanup_failure [OF example_found got ok cleanup run]
  have "fst ?R = Inl (HTTPException HTTP_502_BAD_GATEWAY
                        (''Infra API Error: '' @ ''upstream unavailable''))"
    and "transcriptions (fst (snd ?R)) =
           transcriptions example_db
             @ map (segment_row (m_id example_meeting)) (get_segments (Some example_segments))"
    by simp_all
  then have "fst ?R = Inl (HTTPException 502 ''Infra API Error: upstream unavailable'')"
    and "transcriptions (fst (snd ?R)) = map (segment_row 1) example_segments"
    by (simp_all add: HTTP_502_BAD_GATEWAY_def example_db_def example_meeting_def
                      get_segments_def)
  with example_found got ok cleanup show ?thesis by simp
qed

text \<open>
  Claim C4 as stated does not hold: with the archival committed and only the
  delete-meeting call failing, the webhook caller gets an error.
\<close>

theorem handle_webhook_cleanup_failure_surfaces:
  "commit_fault cleanup_fault_env 0 = None \<and>
   infra_get_transcript cleanup_fault_env ''google_meet'' ''abc-123''
     = Inr (Some example_segments) \<and>
   infra_delete_meeting cleanup_fault_env ''google_meet'' ''abc-123''
     = Inl ''upstream unavailable'' \<and>
   handle_webhook cleanup_fault_env example_payload example_db =
     (Inl (HTTPException 502 ''Infra API Error: upstream unavailable''), archived_db,
      [Call_get_transcript ''google_meet'' ''abc-123'',
       Call_delete_meeting ''google_meet'' ''abc-123'']) \<and>
   fst (handle_webhook cleanup_fault_env example_payload example_db)
     \<noteq> Inr ''Webhook processed successfully''"
  by (simp add: example_defs handler_defs)

text \<open>
  Claim C8. For a user id with no user row, \<^verbatim>\<open>create_token_for_user\<close> does not answer
  404: it has no look-up of the user and no handler around the commit, so the
  foreign-key violation leaves the endpoint as the \<^verbatim>\<open>IntegrityError\<close> it is.
\<close>

theorem create_token_for_user_missing_user:
  "create_token_for_user example_env 999 example_db =
     (Inl (Unhandled (IntegrityError ''foreign key violation: api_tokens.user_id'')),
      example_db)"
  by (simp add: example_defs create_token_for_user_def db_commit_def Let_def)

end
